theory Spec2Isabelle
  imports Main
begin

section \<open>Data of the relay (src/app.py)\<close>

text \<open>
  The Slack payloads are JSON objects. The code reads them with \<^verbatim>\<open>d.get(k)\<close>,
  \<^verbatim>\<open>k in d\<close> and \<^verbatim>\<open>d[k]\<close> only, so an object is an association list read with
  \<open>map_of\<close>; the fields the code reads (\<^verbatim>\<open>type\<close>, \<^verbatim>\<open>text\<close>, \<^verbatim>\<open>user\<close>,
  \<^verbatim>\<open>channel\<close>, \<^verbatim>\<open>client_msg_id\<close>, \<^verbatim>\<open>real_name\<close>, \<^verbatim>\<open>name\<close>, \<^verbatim>\<open>user_id\<close>)
  are strings. A Python \<^verbatim>\<open>str\<close> is modelled by its UTF-8 bytes; for well-formed
  UTF-8 the substring test on bytes agrees with the one on code points.
  \<^verbatim>\<open>d.get(k)\<close> is \<open>None\<close> for a missing key.
\<close>

type_synonym dict = "(string \<times> string) list"

type_synonym event = dict

text \<open>A payload (and a Web API response) is an object whose entries are objects.\<close>

type_synonym payload = "(string \<times> dict) list"

type_synonym response = "(string \<times> dict) list"

definition dict_get :: "dict \<Rightarrow> string \<Rightarrow> string option" where
  "dict_get d k = map_of d k"

text \<open>\<^verbatim>\<open>d.get(k, default)\<close>\<close>

definition dict_get_default :: "dict \<Rightarrow> string \<Rightarrow> string \<Rightarrow> string" where
  "dict_get_default d k dflt = (case map_of d k of None \<Rightarrow> dflt | Some v \<Rightarrow> v)"

text \<open>Python truthiness of the result of \<^verbatim>\<open>d.get(k)\<close>: \<^verbatim>\<open>None\<close> and \<^verbatim>\<open>""\<close> are false.\<close>

fun truthy :: "string option \<Rightarrow> bool" where
  "truthy None = False"
| "truthy (Some s) = (s \<noteq> [])"

text \<open>\<^verbatim>\<open>str(x)\<close> inside an f-string, for a value that is a string or \<^verbatim>\<open>None\<close>.\<close>

fun py_str :: "string option \<Rightarrow> string" where
  "py_str None = ''None''"
| "py_str (Some s) = s"

text \<open>\<^verbatim>\<open>pat in text\<close> on two strings: \<open>pat\<close> occurs in \<open>text\<close> as a contiguous block.\<close>

fun starts_with :: "string \<Rightarrow> string \<Rightarrow> bool" where
  "starts_with s [] = True"
| "starts_with [] (p # ps) = False"
| "starts_with (c # cs) (p # ps) = (c = p \<and> starts_with cs ps)"

fun py_in :: "string \<Rightarrow> string \<Rightarrow> bool" where
  "py_in pat [] = (pat = [])"
| "py_in pat (c # cs) = (starts_with (c # cs) pat \<or> py_in pat cs)"

record SocketModeRequest =
  envelope_id :: string
  payload :: payload

record SocketModeResponse =
  response_envelope_id :: string

text \<open>
  Exceptions. \<open>SlackApiError\<close> carries \<^verbatim>\<open>e.response['error']\<close>; the other constructors
  are the exceptions that are not a \<open>SlackApiError\<close> (all of them are subclasses of
  \<^verbatim>\<open>Exception\<close>).
\<close>

datatype exn = SlackApiError string | KeyError string | TypeError string | OtherError string

datatype 'a outcome = Returns 'a | Raises exn

text \<open>
  The collaborators the bot calls: \<^verbatim>\<open>slack_client.auth_test()\<close>,
  \<^verbatim>\<open>slack_client.users_info(user=...)\<close>, \<^verbatim>\<open>slack_client.conversations_info(channel=...)\<close>
  and \<^verbatim>\<open>telegram_bot.send_message(chat_id=..., text=...)\<close>. Each call returns or raises.
\<close>

record clients =
  auth_test :: "dict outcome"
  users_info :: "string option \<Rightarrow> response outcome"
  conversations_info :: "string option \<Rightarrow> response outcome"
  send_message :: "string option \<Rightarrow> string \<Rightarrow> unit outcome"

text \<open>The log records the code writes, one constructor per \<^verbatim>\<open>logging\<close> call.\<close>

datatype log_record =
    ErrorEmojis exn
  | ErrorUserId string
  | InfoProcessing payload
  | InfoMentionFound string
  | InfoSent string
  | ErrorSend exn
  | ErrorSlack string
  | InfoNoUser
  | InfoAlreadyProcessed "string option"

text \<open>
  What the program does to the outside and to its two shared structures, in program
  order: a log record, \<^verbatim>\<open>event_queue.append\<close>, \<^verbatim>\<open>processed_events.add\<close>, and a
  \<^verbatim>\<open>send_message\<close> call that returned.
\<close>

datatype effect =
    Logged log_record
  | Appended payload
  | Added "string option"
  | Sent "string option" string

text \<open>
  The fields of \<^verbatim>\<open>SlackTelegramBot\<close> that the pipeline uses. \<open>processed_events\<close> holds
  the values \<^verbatim>\<open>event.get('client_msg_id')\<close> returned. \<open>trace\<close> is the history of
  effects so far, oldest first.
\<close>

record bot =
  user_id :: "string option"
  event_queue :: "payload list"
  processed_events :: "string option set"
  channel_emojis :: dict
  telegram_chat_id :: "string option"
  trace :: "effect list"

definition emit :: "effect \<Rightarrow> bot \<Rightarrow> bot" where
  "emit x b = b\<lparr>trace := trace b @ [x]\<rparr>"

section \<open>Startup\<close>

text \<open>
  \<^verbatim>\<open>load_channel_emojis\<close>: the parsed file, or the empty table after logging when
  opening or parsing raised.
\<close>

definition load_channel_emojis :: "dict outcome \<Rightarrow> dict \<times> effect list" where
  "load_channel_emojis file =
     (case file of
        Returns d \<Rightarrow> (d, [])
      | Raises e \<Rightarrow> ([], [Logged (ErrorEmojis e)]))"

text \<open>
  \<^verbatim>\<open>get_user_id\<close>: \<^verbatim>\<open>response["user_id"]\<close> of the \<^verbatim>\<open>auth_test\<close> response (\<^verbatim>\<open>None\<close>
  when the response has no such field); only \<open>SlackApiError\<close> is caught, and then the
  result is \<^verbatim>\<open>None\<close>.
\<close>

definition get_user_id :: "clients \<Rightarrow> string option outcome \<times> effect list" where
  "get_user_id cl =
     (case auth_test cl of
        Returns response \<Rightarrow> (Returns (dict_get response ''user_id''), [])
      | Raises (SlackApiError err) \<Rightarrow> (Returns None, [Logged (ErrorUserId err)])
      | Raises e \<Rightarrow> (Raises e, []))"

text \<open>\<^verbatim>\<open>__init__\<close>: the identity is resolved first, the table is loaded last.\<close>

definition init :: "clients \<Rightarrow> string option \<Rightarrow> dict outcome \<Rightarrow> bot outcome" where
  "init cl chat_id file =
     (case get_user_id cl of
        (Raises e, _) \<Rightarrow> Raises e
      | (Returns uid, log1) \<Rightarrow>
          (case load_channel_emojis file of
             (emojis, log2) \<Rightarrow>
               Returns \<lparr>user_id = uid, event_queue = [], processed_events = {},
                         channel_emojis = emojis, telegram_chat_id = chat_id,
                         trace = log1 @ log2\<rparr>))"

section \<open>Intake: \<^verbatim>\<open>socket_mode_event_handler\<close>\<close>

text \<open>
  \<^verbatim>\<open>req.payload['event']\<close> raises \<open>KeyError\<close> when the payload has no event. Otherwise
  the handler returns the response for the request's envelope, after either appending the
  payload to the queue and then adding the identifier to the set, or logging.
\<close>

definition socket_mode_event_handler ::
  "bot \<Rightarrow> SocketModeRequest \<Rightarrow> SocketModeResponse outcome \<times> bot" where
  "socket_mode_event_handler b req =
     (case map_of (payload req) ''event'' of
        None \<Rightarrow> (Raises (KeyError ''event''), b)
      | Some event \<Rightarrow>
          (let event_id = dict_get event ''client_msg_id'';
               b' = (if truthy event_id \<and> event_id \<notin> processed_events b then
                       (let b1 = emit (Appended (payload req))
                                   (b\<lparr>event_queue := event_queue b @ [payload req]\<rparr>);
                            b2 = emit (Added event_id)
                                   (b1\<lparr>processed_events := insert event_id (processed_events b1)\<rparr>)
                        in b2)
                     else emit (Logged (InfoAlreadyProcessed event_id)) b)
           in (Returns \<lparr>response_envelope_id = envelope_id req\<rparr>, b')))"

section \<open>Dispatch: \<^verbatim>\<open>process_message\<close> and \<^verbatim>\<open>process_event_queue\<close>\<close>

text \<open>The marker: the f-string that puts \<^verbatim>\<open>str(self.user_id)\<close> between \<^verbatim>\<open><@\<close> and \<^verbatim>\<open>>\<close>.\<close>

definition mention_marker :: "string option \<Rightarrow> string" where
  "mention_marker uid = ''<@'' @ py_str uid @ ''>''"

text \<open>\<^verbatim>\<open>f"{channel_name} {self.channel_emojis.get(channel_name, '')}"\<close>\<close>

definition channel_name_with_emoji :: "dict \<Rightarrow> string \<Rightarrow> string" where
  "channel_name_with_emoji emojis channel_name =
     channel_name @ '' '' @ dict_get_default emojis channel_name ''''"

text \<open>The three Russian labels of the message, as UTF-8 bytes, each with its punctuation.\<close>

definition label_channel :: string where
  "label_channel =
     [CHR 0xD0, CHR 0x9A, CHR 0xD0, CHR 0xB0, CHR 0xD0, CHR 0xBD, CHR 0xD0, CHR 0xB0,
      CHR 0xD0, CHR 0xBB] @ '': ''"

definition label_user :: string where
  "label_user =
     '', '' @
     [CHR 0xD0, CHR 0x9F, CHR 0xD0, CHR 0xBE, CHR 0xD0, CHR 0xBB, CHR 0xD1, CHR 0x8C,
      CHR 0xD0, CHR 0xB7, CHR 0xD0, CHR 0xBE, CHR 0xD0, CHR 0xB2, CHR 0xD0, CHR 0xB0,
      CHR 0xD1, CHR 0x82, CHR 0xD0, CHR 0xB5, CHR 0xD0, CHR 0xBB, CHR 0xD1, CHR 0x8C] @ '': ''"

definition label_message :: string where
  "label_message =
     '', '' @
     [CHR 0xD0, CHR 0xA1, CHR 0xD0, CHR 0xBE, CHR 0xD0, CHR 0xBE, CHR 0xD0, CHR 0xB1,
      CHR 0xD1, CHR 0x89, CHR 0xD0, CHR 0xB5, CHR 0xD0, CHR 0xBD, CHR 0xD0, CHR 0xB8,
      CHR 0xD0, CHR 0xB5] @ '': ''"

definition format_message :: "string \<Rightarrow> string \<Rightarrow> string \<Rightarrow> string" where
  "format_message channel_name_with_emoji' user_name text =
     label_channel @ channel_name_with_emoji' @ label_user @ user_name @ label_message @ text"

text \<open>
  \<^verbatim>\<open>r[k1][k2]\<close> on a response: the client's response object gives \<^verbatim>\<open>None\<close> for a
  missing top-level field, and subscripting \<^verbatim>\<open>None\<close> raises \<open>TypeError\<close>; a missing
  key of the inner object raises \<open>KeyError\<close>.
\<close>

definition subscript2 :: "response \<Rightarrow> string \<Rightarrow> string \<Rightarrow> string outcome" where
  "subscript2 r k1 k2 =
     (case map_of r k1 of
        None \<Rightarrow> Raises (TypeError k1)
      | Some d \<Rightarrow> (case map_of d k2 of None \<Rightarrow> Raises (KeyError k2) | Some v \<Rightarrow> Returns v))"

text \<open>The inner \<^verbatim>\<open>try\<close>: one call of the sink; \<^verbatim>\<open>except Exception\<close> catches whatever it raises.\<close>

definition send_notification :: "clients \<Rightarrow> bot \<Rightarrow> string \<Rightarrow> bot" where
  "send_notification cl b message =
     (case send_message cl (telegram_chat_id b) message of
        Returns _ \<Rightarrow> emit (Logged (InfoSent message)) (emit (Sent (telegram_chat_id b) message) b)
      | Raises e \<Rightarrow> emit (Logged (ErrorSend e)) b)"

text \<open>
  The body of the outer \<^verbatim>\<open>try\<close>: both lookups are called before either response is
  read; the first statement that raises ends the body.
\<close>

definition enrich_and_send ::
  "clients \<Rightarrow> bot \<Rightarrow> string option \<Rightarrow> string option \<Rightarrow> string \<Rightarrow> unit outcome \<times> bot" where
  "enrich_and_send cl b event_user_id channel_id text =
     (case users_info cl event_user_id of
        Raises e \<Rightarrow> (Raises e, b)
      | Returns user_info \<Rightarrow>
     (case conversations_info cl channel_id of
        Raises e \<Rightarrow> (Raises e, b)
      | Returns channel_info \<Rightarrow>
     (case subscript2 user_info ''user'' ''real_name'' of
        Raises e \<Rightarrow> (Raises e, b)
      | Returns user_name \<Rightarrow>
     (case subscript2 channel_info ''channel'' ''name'' of
        Raises e \<Rightarrow> (Raises e, b)
      | Returns channel_name \<Rightarrow>
          (let channel_name_with_emoji' = channel_name_with_emoji (channel_emojis b) channel_name;
               b1 = emit (Logged (InfoMentionFound text)) b;
               message = format_message channel_name_with_emoji' user_name text
           in (Returns (), send_notification cl b1 message))))))"

text \<open>\<^verbatim>\<open>except SlackApiError\<close>: that class is logged and swallowed, any other propagates.\<close>

fun except_SlackApiError :: "unit outcome \<times> bot \<Rightarrow> unit outcome \<times> bot" where
  "except_SlackApiError (Raises (SlackApiError err), b) = (Returns (), emit (Logged (ErrorSlack err)) b)"
| "except_SlackApiError (r, b) = (r, b)"

text \<open>\<^verbatim>\<open>event_data.get('event', {})\<close>\<close>

definition get_event :: "payload \<Rightarrow> event" where
  "get_event event_data = (case map_of event_data ''event'' of None \<Rightarrow> [] | Some e \<Rightarrow> e)"

definition process_message :: "clients \<Rightarrow> bot \<Rightarrow> payload \<Rightarrow> unit outcome \<times> bot" where
  "process_message cl b event_data =
     (let b0 = emit (Logged (InfoProcessing event_data)) b;
          event = get_event event_data
      in if dict_get event ''type'' = Some ''message'' \<and> dict_get event ''text'' \<noteq> None then
           (let text = (case dict_get event ''text'' of None \<Rightarrow> [] | Some t \<Rightarrow> t);
                event_user_id = dict_get event ''user'';
                channel_id = dict_get event ''channel''
            in if truthy event_user_id then
                 (if py_in (mention_marker (user_id b0)) text then
                    except_SlackApiError (enrich_and_send cl b0 event_user_id channel_id text)
                  else (Returns (), b0))
               else (Returns (), emit (Logged InfoNoUser) b0))
         else (Returns (), b0))"

text \<open>
  One turn of the \<^verbatim>\<open>while True\<close> loop of \<^verbatim>\<open>process_event_queue\<close>: if the queue is not
  empty, its first payload is removed and processed. (The one-second sleep is not modelled.)
\<close>

definition process_event_queue_turn :: "clients \<Rightarrow> bot \<Rightarrow> unit outcome \<times> bot" where
  "process_event_queue_turn cl b =
     (case event_queue b of
        [] \<Rightarrow> (Returns (), b)
      | event_data # rest \<Rightarrow> process_message cl (b\<lparr>event_queue := rest\<rparr>) event_data)"

text \<open>
  The loop has no exit: it runs until an exception leaves \<^verbatim>\<open>process_message\<close>, which ends
  the coroutine. \<open>process_event_queue n\<close> is its first \<open>n\<close> turns: \<open>None\<close> when the loop is
  still running after them, \<open>Some e\<close> when \<open>e\<close> ended it.
\<close>

fun process_event_queue :: "nat \<Rightarrow> clients \<Rightarrow> bot \<Rightarrow> exn option \<times> bot" where
  "process_event_queue 0 cl b = (None, b)"
| "process_event_queue (Suc n) cl b =
     (case process_event_queue_turn cl b of
        (Raises e, b') \<Rightarrow> (Some e, b')
      | (Returns _, b') \<Rightarrow> process_event_queue n cl b')"

section \<open>The two contexts together\<close>

text \<open>
  The source client calls the handler while the loop runs. A schedule lists, in the order
  they happen, the deliveries and the turns of the loop; \<open>loop_ended\<close> records the
  exception that ended the loop, after which turns do nothing while deliveries are still
  handled. A delivery whose handler raises changes nothing (the handler raises before its
  first mutation).
\<close>

datatype action = Deliver SocketModeRequest | Turn

record system =
  self :: bot
  loop_ended :: "exn option"

definition start :: "bot \<Rightarrow> system" where
  "start b = \<lparr>self = b, loop_ended = None\<rparr>"

fun step :: "clients \<Rightarrow> system \<Rightarrow> action \<Rightarrow> system" where
  "step cl s (Deliver req) = s\<lparr>self := snd (socket_mode_event_handler (self s) req)\<rparr>"
| "step cl s Turn =
     (case loop_ended s of
        Some e \<Rightarrow> s
      | None \<Rightarrow>
          (case process_event_queue_turn cl (self s) of
             (Raises e, b') \<Rightarrow> \<lparr>self = b', loop_ended = Some e\<rparr>
           | (Returns _, b') \<Rightarrow> \<lparr>self = b', loop_ended = None\<rparr>))"

definition run :: "clients \<Rightarrow> action list \<Rightarrow> system \<Rightarrow> system" where
  "run cl sched s = foldl (step cl) s sched"

section \<open>Reading a trace\<close>

fun notifications :: "effect list \<Rightarrow> (string option \<times> string) list" where
  "notifications [] = []"
| "notifications (Sent c m # tr) = (c, m) # notifications tr"
| "notifications (_ # tr) = notifications tr"

fun appended :: "effect list \<Rightarrow> payload list" where
  "appended [] = []"
| "appended (Appended p # tr) = p # appended tr"
| "appended (_ # tr) = appended tr"

fun added :: "effect list \<Rightarrow> string option list" where
  "added [] = []"
| "added (Added i # tr) = i # added tr"
| "added (_ # tr) = added tr"

fun started :: "effect list \<Rightarrow> payload list" where
  "started [] = []"
| "started (Logged (InfoProcessing p) # tr) = p # started tr"
| "started (_ # tr) = started tr"



section \<open>Concrete inputs\<close>

text \<open>
  The scenario of the specification: identity \<open>U1\<close>; the directory resolves \<open>U1\<close> to
  Ann and \<open>C1\<close> to general; the table has a label for general; the sink accepts.
\<close>

definition ex_clients :: clients where
  "ex_clients =
     \<lparr>auth_test = Returns [(''user_id'', ''U1'')],
      users_info = (\<lambda>u. if u = Some ''U1'' then Returns [(''user'', [(''real_name'', ''Ann'')])]
                         else Raises (SlackApiError ''user_not_found'')),
      conversations_info = (\<lambda>c. if c = Some ''C1'' then Returns [(''channel'', [(''name'', ''general'')])]
                                 else Raises (SlackApiError ''channel_not_found'')),
      send_message = (\<lambda>c m. Returns ())\<rparr>"

definition ex_bot :: bot where
  "ex_bot =
     \<lparr>user_id = Some ''U1'', event_queue = [], processed_events = {},
      channel_emojis = [(''general'', ''*'')], telegram_chat_id = Some ''chat'', trace = []\<rparr>"

definition ex_req :: SocketModeRequest where
  "ex_req =
     \<lparr>envelope_id = ''env-1'',
      payload = [(''event'', [(''client_msg_id'', ''m1''), (''type'', ''message''),
                              (''text'', ''<@U1> ping''), (''user'', ''U1''), (''channel'', ''C1'')])]\<rparr>"

text \<open>A second message, with another identifier.\<close>

definition ex_req2 :: SocketModeRequest where
  "ex_req2 =
     \<lparr>envelope_id = ''env-2'',
      payload = [(''event'', [(''client_msg_id'', ''m2''), (''type'', ''message''),
                              (''text'', ''<@U1> pong''), (''user'', ''U1''), (''channel'', ''C1'')])]\<rparr>"

text \<open>A message that has an identifier and does not mention the user.\<close>

definition ex_req_quiet :: SocketModeRequest where
  "ex_req_quiet =
     \<lparr>envelope_id = ''env-3'',
      payload = [(''event'', [(''client_msg_id'', ''m3''), (''type'', ''message''),
                              (''text'', ''hello''), (''user'', ''U1''), (''channel'', ''C1'')])]\<rparr>"

text \<open>A message without \<^verbatim>\<open>client_msg_id\<close>.\<close>

definition ex_req_noid :: SocketModeRequest where
  "ex_req_noid =
     \<lparr>envelope_id = ''env-4'',
      payload = [(''event'', [(''type'', ''message''), (''text'', ''<@U1> ping''),
                              (''user'', ''U1''), (''channel'', ''C1'')])]\<rparr>"

text \<open>A message in a channel the table has no label for, and a directory that knows it.\<close>

definition ex_req_random :: SocketModeRequest where
  "ex_req_random =
     \<lparr>envelope_id = ''env-5'',
      payload = [(''event'', [(''client_msg_id'', ''m5''), (''type'', ''message''),
                              (''text'', ''<@U1> ping''), (''user'', ''U1''), (''channel'', ''C2'')])]\<rparr>"

definition ex_clients_random :: clients where
  "ex_clients_random =
     ex_clients\<lparr>conversations_info := (\<lambda>c. Returns [(''channel'', [(''name'', ''random'')])])\<rparr>"

text \<open>A message from a user the directory does not know.\<close>

definition ex_req_stranger :: SocketModeRequest where
  "ex_req_stranger =
     \<lparr>envelope_id = ''env-6'',
      payload = [(''event'', [(''client_msg_id'', ''m6''), (''type'', ''message''),
                              (''text'', ''<@U1> ping''), (''user'', ''U9''), (''channel'', ''C1'')])]\<rparr>"

text \<open>Startup with a failing \<^verbatim>\<open>auth_test\<close>, and a message whose text holds \<^verbatim>\<open><@None>\<close>.\<close>

definition ex_clients_noauth :: clients where
  "ex_clients_noauth = ex_clients\<lparr>auth_test := Raises (SlackApiError ''invalid_auth'')\<rparr>"

definition ex_bot_anon :: bot where
  "ex_bot_anon = ex_bot\<lparr>user_id := None, trace := [Logged (ErrorUserId ''invalid_auth'')]\<rparr>"

definition ex_req_none :: SocketModeRequest where
  "ex_req_none =
     \<lparr>envelope_id = ''env-7'',
      payload = [(''event'', [(''client_msg_id'', ''m7''), (''type'', ''message''),
                              (''text'', ''<@None> ping''), (''user'', ''U1''), (''channel'', ''C1'')])]\<rparr>"

text \<open>A directory whose user record has no \<^verbatim>\<open>real_name\<close>.\<close>

definition ex_clients_nameless :: clients where
  "ex_clients_nameless =
     ex_clients\<lparr>users_info := (\<lambda>u. Returns [(''user'', [(''name'', ''ann'')])])\<rparr>"

text \<open>A directory that cannot be reached: the call raises something that is not a \<open>SlackApiError\<close>.\<close>

definition ex_clients_unreachable :: clients where
  "ex_clients_unreachable = ex_clients\<lparr>users_info := (\<lambda>u. Raises (OtherError ''timed out''))\<rparr>"

section \<open>Basic facts\<close>

lemma trace_emit [simp]: "trace (emit x b) = trace b @ [x]"
  and queue_emit [simp]: "event_queue (emit x b) = event_queue b"
  and processed_emit [simp]: "processed_events (emit x b) = processed_events b"
  and user_id_emit [simp]: "user_id (emit x b) = user_id b"
  and emojis_emit [simp]: "channel_emojis (emit x b) = channel_emojis b"
  and chat_emit [simp]: "telegram_chat_id (emit x b) = telegram_chat_id b"
  by (simp_all add: emit_def)

lemma notifications_append [simp]: "notifications (xs @ ys) = notifications xs @ notifications ys"
  by (induction xs rule: notifications.induct) simp_all

lemma appended_append [simp]: "appended (xs @ ys) = appended xs @ appended ys"
  by (induction xs rule: appended.induct) simp_all

lemma added_append [simp]: "added (xs @ ys) = added xs @ added ys"
  by (induction xs rule: added.induct) simp_all

lemma started_append [simp]: "started (xs @ ys) = started xs @ started ys"
  by (induction xs rule: started.induct) simp_all

lemma starts_with_iff: "starts_with s p \<longleftrightarrow> (\<exists>suf. s = p @ suf)"
  by (induction s p rule: starts_with.induct) auto

lemma py_in_iff: "py_in pat s \<longleftrightarrow> (\<exists>pre suf. s = pre @ pat @ suf)"
proof (induction s)
  case Nil
  then show ?case by auto
next
  case (Cons c cs)
  show ?case
  proof
    assume "py_in pat (c # cs)"
    then consider "starts_with (c # cs) pat" | "py_in pat cs" by auto
    then show "\<exists>pre suf. c # cs = pre @ pat @ suf"
    proof cases
      case 1
      then obtain suf where "c # cs = pat @ suf" by (auto simp: starts_with_iff)
      then have "c # cs = [] @ pat @ suf" by simp
      then show ?thesis by blast
    next
      case 2
      then obtain pre suf where "cs = pre @ pat @ suf" using Cons.IH by blast
      then have "c # cs = (c # pre) @ pat @ suf" by simp
      then show ?thesis by blast
    qed
  next
    assume "\<exists>pre suf. c # cs = pre @ pat @ suf"
    then obtain pre suf where eq: "c # cs = pre @ pat @ suf" by blast
    show "py_in pat (c # cs)"
    proof (cases pre)
      case Nil
      with eq have "starts_with (c # cs) pat" by (auto simp: starts_with_iff)
      then show ?thesis by simp
    next
      case (Cons d pre')
      with eq have "cs = pre' @ pat @ suf" by simp
      then have "py_in pat cs" using Cons.IH by blast
      then show ?thesis by simp
    qed
  qed
qed

lemma handler_ack:
  "map_of (payload req) ''event'' = Some e \<Longrightarrow>
   fst (socket_mode_event_handler b req) = Returns \<lparr>response_envelope_id = envelope_id req\<rparr>"
  by (simp add: socket_mode_event_handler_def Let_def)


lemma handler_discard:
  "map_of (payload req) ''event'' = Some e \<Longrightarrow>
   \<not> truthy (dict_get e ''client_msg_id'') \<or> dict_get e ''client_msg_id'' \<in> processed_events b \<Longrightarrow>
   snd (socket_mode_event_handler b req) =
     b\<lparr>trace := trace b @ [Logged (InfoAlreadyProcessed (dict_get e ''client_msg_id''))]\<rparr>"
  by (auto simp add: socket_mode_event_handler_def Let_def emit_def)

lemma handler_raises:
  "map_of (payload req) ''event'' = None \<Longrightarrow>
   socket_mode_event_handler b req = (Raises (KeyError ''event''), b)"
  by (simp add: socket_mode_event_handler_def)


lemma send_notification_frame: "(send_notification cl b m)\<lparr>trace := trace b\<rparr> = b"
  by (cases "send_message cl (telegram_chat_id b) m") (simp_all add: send_notification_def emit_def)

lemma send_notification_trace:
  "appended (trace (send_notification cl b m)) = appended (trace b)"
  "added (trace (send_notification cl b m)) = added (trace b)"
  "started (trace (send_notification cl b m)) = started (trace b)"
  by (cases "send_message cl (telegram_chat_id b) m"; simp add: send_notification_def)+


lemma enrich_and_send_frame: "(snd (enrich_and_send cl b u c t))\<lparr>trace := trace b\<rparr> = b"
  by (simp add: enrich_and_send_def Let_def send_notification_def emit_def split: outcome.splits)

lemma enrich_and_send_trace:
  "appended (trace (snd (enrich_and_send cl b u c t))) = appended (trace b)"
  "added (trace (snd (enrich_and_send cl b u c t))) = added (trace b)"
  "started (trace (snd (enrich_and_send cl b u c t))) = started (trace b)"
  by (simp_all add: enrich_and_send_def Let_def send_notification_trace split: outcome.splits)

lemma enrich_and_send_raises_notifications:
  "fst (enrich_and_send cl b u c t) = Raises e \<Longrightarrow> snd (enrich_and_send cl b u c t) = b"
  by (simp add: enrich_and_send_def Let_def split: outcome.splits)


lemma except_frame: "(snd (except_SlackApiError (r, b')))\<lparr>trace := tr\<rparr> = b'\<lparr>trace := tr\<rparr>"
  by (cases "(r, b')" rule: except_SlackApiError.cases) (simp_all add: emit_def)

lemma except_trace:
  "appended (trace (snd (except_SlackApiError (r, b')))) = appended (trace b')"
  "added (trace (snd (except_SlackApiError (r, b')))) = added (trace b')"
  "started (trace (snd (except_SlackApiError (r, b')))) = started (trace b')"
  "notifications (trace (snd (except_SlackApiError (r, b')))) = notifications (trace b')"
  by (cases "(r, b')" rule: except_SlackApiError.cases; simp)+


lemma except_enrich_frame:
  "(snd (except_SlackApiError (enrich_and_send cl b u c t)))\<lparr>trace := trace b\<rparr> = b"
proof -
  obtain r b' where eq: "enrich_and_send cl b u c t = (r, b')" by (cases "enrich_and_send cl b u c t")
  have "b'\<lparr>trace := trace b\<rparr> = b" using enrich_and_send_frame [where cl = cl and b = b and u = u and c = c and t = t] eq by simp
  then show ?thesis using except_frame [where r = r and b' = b' and tr = "trace b"] eq by simp
qed

lemma process_message_frame: "(snd (process_message cl b p))\<lparr>trace := trace b\<rparr> = b"
proof -
  let ?b0 = "emit (Logged (InfoProcessing p)) b"
  have e: "(snd (except_SlackApiError (enrich_and_send cl ?b0 u c t)))\<lparr>trace := trace b\<rparr> = b" for u c t
  proof -
    have "(snd (except_SlackApiError (enrich_and_send cl ?b0 u c t)))\<lparr>trace := trace ?b0\<rparr> = ?b0"
      by (rule except_enrich_frame)
    then have "((snd (except_SlackApiError (enrich_and_send cl ?b0 u c t)))\<lparr>trace := trace ?b0\<rparr>)\<lparr>trace := trace b\<rparr> = ?b0\<lparr>trace := trace b\<rparr>"
      by simp
    then show ?thesis by (simp add: emit_def)
  qed
  show ?thesis
    by (simp add: process_message_def Let_def e get_event_def)
qed

lemma except_enrich_trace:
  "appended (trace (snd (except_SlackApiError (enrich_and_send cl b u c t)))) = appended (trace b)"
  "added (trace (snd (except_SlackApiError (enrich_and_send cl b u c t)))) = added (trace b)"
  "started (trace (snd (except_SlackApiError (enrich_and_send cl b u c t)))) = started (trace b)"
  by (cases "enrich_and_send cl b u c t"; simp add: except_trace; metis enrich_and_send_trace snd_conv)+

lemma process_message_trace:
  "appended (trace (snd (process_message cl b p))) = appended (trace b)"
  "added (trace (snd (process_message cl b p))) = added (trace b)"
  "started (trace (snd (process_message cl b p))) = started (trace b) @ [p]"
  by (simp_all add: process_message_def Let_def except_enrich_trace)

lemma process_message_fields:
  "event_queue (snd (process_message cl b p)) = event_queue b"
  "processed_events (snd (process_message cl b p)) = processed_events b"
  "user_id (snd (process_message cl b p)) = user_id b"
  "channel_emojis (snd (process_message cl b p)) = channel_emojis b"
  "telegram_chat_id (snd (process_message cl b p)) = telegram_chat_id b"
  by (metis process_message_frame bot.select_convs bot.surjective bot.update_convs(6))+

lemma run_Nil [simp]: "run cl [] s = s"
  by (simp add: run_def)

lemma run_Cons [simp]: "run cl (a # sched) s = run cl sched (step cl s a)"
  by (simp add: run_def)


lemma turn_frame:
  "processed_events (snd (process_event_queue_turn cl b)) = processed_events b"
  by (cases "event_queue b") (simp_all add: process_event_queue_turn_def process_message_fields)

lemma handler_processed_mono:
  "processed_events b \<subseteq> processed_events (snd (socket_mode_event_handler b req))"
  by (auto simp add: socket_mode_event_handler_def Let_def split: option.splits)

lemma step_processed_mono: "processed_events (self s) \<subseteq> processed_events (self (step cl s a))"
proof (cases a)
  case (Deliver req)
  then show ?thesis using handler_processed_mono by simp
next
  case Turn
  show ?thesis
  proof (cases "loop_ended s")
    case None
    obtain r b' where eq: "process_event_queue_turn cl (self s) = (r, b')"
      by (cases "process_event_queue_turn cl (self s)")
    then have "processed_events b' = processed_events (self s)"
      using turn_frame [of cl "self s"] by simp
    with Turn None eq show ?thesis by (cases r) simp_all
  next
    case (Some e)
    with Turn show ?thesis by simp
  qed
qed

lemma run_processed_mono: "processed_events (self s) \<subseteq> processed_events (self (run cl sched s))"
proof (induction sched arbitrary: s)
  case Nil
  show ?case by simp
next
  case (Cons a sched)
  have "processed_events (self s) \<subseteq> processed_events (self (step cl s a))"
    by (rule step_processed_mono)
  also have "\<dots> \<subseteq> processed_events (self (run cl sched (step cl s a)))"
    by (rule Cons.IH)
  finally show ?case by simp
qed

section \<open>The claims\<close>

text \<open>
  C2, as it holds on the code. The handler's test is
  \<^verbatim>\<open>if event_id and event_id not in self.processed_events\<close>, so an event without
  \<^verbatim>\<open>client_msg_id\<close> takes the \<^verbatim>\<open>else\<close> branch: it is not appended to the queue, the
  set is left as it is, one log record is written, and the acknowledgment for the
  request's envelope is returned.
\<close>

theorem absent_id_not_enqueued:
  assumes "map_of (payload req) ''event'' = Some e"
    and "dict_get e ''client_msg_id'' = None"
  shows "socket_mode_event_handler b req =
           (Returns \<lparr>response_envelope_id = envelope_id req\<rparr>,
            b\<lparr>trace := trace b @ [Logged (InfoAlreadyProcessed None)]\<rparr>)"
  using assms by (simp add: socket_mode_event_handler_def Let_def emit_def)

theorem absent_id_not_enqueued_witness:
  "map_of (payload ex_req_noid) ''event'' =
     Some [(''type'', ''message''), (''text'', ''<@U1> ping''), (''user'', ''U1''), (''channel'', ''C1'')]
   \<and> event_queue (snd (socket_mode_event_handler ex_bot ex_req_noid)) = event_queue ex_bot
   \<and> processed_events (snd (socket_mode_event_handler ex_bot ex_req_noid)) = processed_events ex_bot
   \<and> fst (socket_mode_event_handler ex_bot ex_req_noid) = Returns \<lparr>response_envelope_id = ''env-4''\<rparr>"
  using absent_id_not_enqueued [of ex_req_noid
      "[(''type'', ''message''), (''text'', ''<@U1> ping''), (''user'', ''U1''), (''channel'', ''C1'')]" ex_bot]
  by (simp add: ex_req_noid_def dict_get_def)

text \<open>
  C2 as stated (an event without identifier is enqueued) fails: delivered to a bot with an
  empty queue, the request without identifier leaves the queue empty.
\<close>

theorem absent_id_counterexample:
  "dict_get (get_event (payload ex_req_noid)) ''client_msg_id'' = None
   \<and> event_queue (snd (socket_mode_event_handler ex_bot ex_req_noid)) = []
   \<and> payload ex_req_noid \<notin> set (event_queue (snd (socket_mode_event_handler ex_bot ex_req_noid)))"
  by (simp add: ex_req_noid_def ex_bot_def socket_mode_event_handler_def get_event_def dict_get_def Let_def emit_def)

text \<open>
  C9. For a channel name that the table \<^verbatim>\<open>channel_emojis\<close> has no entry for,
  \<^verbatim>\<open>channel_emojis.get(channel_name, '')\<close> is the empty label and the display string is
  the channel name followed by one space. Nothing is raised: when both lookups returned the
  names, the body of the \<^verbatim>\<open>try\<close> returns after handing the sink the message composed
  with that display string.
\<close>

theorem label_fallback:
  assumes "dict_get (channel_emojis b) channel_name = None"
  shows "dict_get_default (channel_emojis b) channel_name [] = []
    \<and> channel_name_with_emoji (channel_emojis b) channel_name = channel_name @ '' ''
    \<and> (users_info cl u = Returns user_info
        \<and> conversations_info cl c = Returns channel_info
        \<and> subscript2 user_info ''user'' ''real_name'' = Returns user_name
        \<and> subscript2 channel_info ''channel'' ''name'' = Returns channel_name
        \<longrightarrow> enrich_and_send cl b u c t
             = (Returns (),
                send_notification cl (emit (Logged (InfoMentionFound t)) b)
                  (format_message (channel_name @ '' '') user_name t)))"
  using assms
  by (simp add: dict_get_def dict_get_default_def channel_name_with_emoji_def enrich_and_send_def Let_def)

theorem label_fallback_witness:
  "dict_get (channel_emojis ex_bot) ''random'' = None
   \<and> channel_name_with_emoji (channel_emojis ex_bot) ''random'' = ''random ''
   \<and> users_info ex_clients_random (Some ''U1'') = Returns [(''user'', [(''real_name'', ''Ann'')])]
   \<and> conversations_info ex_clients_random (Some ''C2'') = Returns [(''channel'', [(''name'', ''random'')])]
   \<and> notifications (trace (snd (process_message ex_clients_random ex_bot (payload ex_req_random))))
       = [(Some ''chat'', format_message ''random '' ''Ann'' ''<@U1> ping'')]"
  using label_fallback [of ex_bot "''random''" ex_clients_random "Some ''U1''"
      "[(''user'', [(''real_name'', ''Ann'')])]" "Some ''C2''" "[(''channel'', [(''name'', ''random'')])]"
      "''Ann''" "''<@U1> ping''"]
  by (simp add: ex_bot_def ex_clients_random_def ex_clients_def ex_req_random_def
      process_message_def enrich_and_send_def send_notification_def subscript2_def get_event_def
      dict_get_def dict_get_default_def mention_marker_def channel_name_with_emoji_def emit_def Let_def)


lemma handler_frame:
  "user_id (snd (socket_mode_event_handler b req)) = user_id b"
  "channel_emojis (snd (socket_mode_event_handler b req)) = channel_emojis b"
  "telegram_chat_id (snd (socket_mode_event_handler b req)) = telegram_chat_id b"
  "notifications (trace (snd (socket_mode_event_handler b req))) = notifications (trace b)"
  "started (trace (snd (socket_mode_event_handler b req))) = started (trace b)"
  by (simp_all add: socket_mode_event_handler_def Let_def split: option.splits)


lemma handler_fifo_inv:
  assumes "appended (trace b) = started (trace b) @ event_queue b"
  shows "appended (trace (snd (socket_mode_event_handler b req)))
         = started (trace (snd (socket_mode_event_handler b req)))
           @ event_queue (snd (socket_mode_event_handler b req))"
  using assms by (simp add: socket_mode_event_handler_def Let_def split: option.splits)


lemma turn_fifo_inv:
  assumes "appended (trace b) = started (trace b) @ event_queue b"
  shows "appended (trace (snd (process_event_queue_turn cl b)))
         = started (trace (snd (process_event_queue_turn cl b)))
           @ event_queue (snd (process_event_queue_turn cl b))"
  using assms
  by (cases "event_queue b")
     (simp_all add: process_event_queue_turn_def process_message_trace process_message_fields)

lemma self_step_Turn:
  "self (step cl s Turn) = (case loop_ended s of Some e \<Rightarrow> self s | None \<Rightarrow> snd (process_event_queue_turn cl (self s)))"
  by (cases "process_event_queue_turn cl (self s)"; cases "fst (process_event_queue_turn cl (self s))")
     (auto split: option.splits)



lemma step_fifo_inv:
  assumes "appended (trace (self s)) = started (trace (self s)) @ event_queue (self s)"
  shows "appended (trace (self (step cl s a)))
         = started (trace (self (step cl s a))) @ event_queue (self (step cl s a))"
proof (cases a)
  case (Deliver req)
  then show ?thesis using handler_fifo_inv [OF assms] by simp
next
  case Turn
  show ?thesis unfolding Turn self_step_Turn using assms turn_fifo_inv [OF assms, of cl]
    by (simp split: option.splits)
qed



text \<open>
  C6. The queue is first in, first out: whatever the deliveries and the turns of the loop,
  the payloads accepted so far, in the order they were appended, are the payloads whose
  processing has begun, in that order, followed by the queue. So the order of processing is the
  order of acceptance.
\<close>

theorem queue_is_fifo:
  assumes "appended (trace (self s)) = started (trace (self s)) @ event_queue (self s)"
  shows "appended (trace (self (run cl sched s)))
         = started (trace (self (run cl sched s))) @ event_queue (self (run cl sched s))"
  using assms
proof (induction sched arbitrary: s)
  case Nil
  then show ?case by simp
next
  case (Cons a sched)
  from step_fifo_inv [OF Cons.prems, of cl a] Cons.IH [of "step cl s a"]
  show ?case by simp
qed

theorem queue_is_fifo_witness:
  "started (trace (self (run ex_clients [Deliver ex_req, Deliver ex_req2, Turn, Turn] (start ex_bot))))
     = [payload ex_req, payload ex_req2]
   \<and> appended (trace (self (run ex_clients [Deliver ex_req, Deliver ex_req2, Turn, Turn] (start ex_bot))))
     = [payload ex_req, payload ex_req2]"
  using queue_is_fifo [of "start ex_bot" ex_clients "[Deliver ex_req, Deliver ex_req2, Turn, Turn]"]
  by (simp add: start_def ex_bot_def ex_req_def ex_req2_def ex_clients_def
      socket_mode_event_handler_def process_event_queue_turn_def process_message_def
      enrich_and_send_def send_notification_def subscript2_def get_event_def dict_get_def
      mention_marker_def emit_def Let_def)



lemma turns_ended: "loop_ended s = Some e \<Longrightarrow> run cl (replicate n Turn) s = s"
  by (induction n) simp_all

text \<open>The turns of a schedule without deliveries are the turns of \<^verbatim>\<open>process_event_queue\<close>.\<close>

lemma process_event_queue_run:
  "process_event_queue n cl b
     = (loop_ended (run cl (replicate n Turn) (start b)), self (run cl (replicate n Turn) (start b)))"
proof (induction n arbitrary: b)
  case 0
  show ?case by (simp add: start_def)
next
  case (Suc n)
  obtain r b' where eq: "process_event_queue_turn cl b = (r, b')"
    by (cases "process_event_queue_turn cl b")
  show ?case
  proof (cases r)
    case (Returns u)
    then have "step cl (start b) Turn = start b'" using eq by (simp add: start_def)
    then show ?thesis using eq Returns Suc.IH [of b'] by (simp del: step.simps)
  next
    case (Raises e)
    then have st: "step cl (start b) Turn = \<lparr>self = b', loop_ended = Some e\<rparr>"
      using eq by (simp add: start_def)
    have "run cl (replicate n Turn) \<lparr>self = b', loop_ended = Some e\<rparr> = \<lparr>self = b', loop_ended = Some e\<rparr>"
      by (rule turns_ended) simp
    then show ?thesis using eq Raises st by (simp del: step.simps)
  qed
qed


lemma process_message_relays:
  assumes "dict_get (get_event p) ''type'' = Some ''message''"
    and "dict_get (get_event p) ''text'' = Some t"
    and "truthy (dict_get (get_event p) ''user'')"
    and "py_in (mention_marker (user_id b)) t"
    and "users_info cl (dict_get (get_event p) ''user'') = Returns ui"
    and "conversations_info cl (dict_get (get_event p) ''channel'') = Returns ci"
    and "subscript2 ui ''user'' ''real_name'' = Returns un"
    and "subscript2 ci ''channel'' ''name'' = Returns cn"
    and "send_message cl (telegram_chat_id b) (format_message (channel_name_with_emoji (channel_emojis b) cn) un t) = Returns ()"
  shows "process_message cl b p =
           (Returns (),
            b\<lparr>trace := trace b @
               [Logged (InfoProcessing p), Logged (InfoMentionFound t),
                Sent (telegram_chat_id b) (format_message (channel_name_with_emoji (channel_emojis b) cn) un t),
                Logged (InfoSent (format_message (channel_name_with_emoji (channel_emojis b) cn) un t))]\<rparr>)"
  using assms
  by (simp add: process_message_def enrich_and_send_def send_notification_def emit_def Let_def)

lemma process_message_filtered:
  assumes "\<not> (dict_get (get_event p) ''type'' = Some ''message''
              \<and> dict_get (get_event p) ''text'' \<noteq> None
              \<and> truthy (dict_get (get_event p) ''user'')
              \<and> py_in (mention_marker (user_id b)) (case dict_get (get_event p) ''text'' of None \<Rightarrow> [] | Some t \<Rightarrow> t))"
  shows "fst (process_message cl b p) = Returns ()"
    and "notifications (trace (snd (process_message cl b p))) = notifications (trace b)"
  using assms by (auto simp add: process_message_def Let_def)



lemmas model_defs =
  socket_mode_event_handler_def process_event_queue_turn_def process_message_def
  enrich_and_send_def send_notification_def subscript2_def get_event_def dict_get_def
  dict_get_default_def mention_marker_def channel_name_with_emoji_def emit_def start_def Let_def

lemmas example_defs =
  ex_clients_def ex_bot_def ex_req_def ex_req2_def ex_req_quiet_def ex_req_noid_def
  ex_req_random_def ex_clients_random_def ex_req_stranger_def ex_clients_noauth_def
  ex_bot_anon_def ex_req_none_def ex_clients_nameless_def ex_clients_unreachable_def

text \<open>
  C10. The set only grows: no turn of the loop and no delivery removes an identifier. So
  once a request with a non-empty identifier has been delivered, the identifier is in the set
  after any further history (whatever the lookups and the sink did with the event, and also
  after an exception has ended the loop), and any later request with the same identifier is
  discarded at intake: the state only gains one log record, and the acknowledgment is returned.
\<close>

theorem dedup_is_permanent:
  assumes "map_of (payload req) ''event'' = Some e"
    and "truthy (dict_get e ''client_msg_id'')"
    and "map_of (payload req') ''event'' = Some e'"
    and "dict_get e' ''client_msg_id'' = dict_get e ''client_msg_id''"
  shows "processed_events (self s) \<subseteq> processed_events (self (run cl sched s))
    \<and> processed_events (snd (process_message cl b p)) = processed_events b
    \<and> dict_get e ''client_msg_id'' \<in> processed_events (self (run cl sched (step cl s (Deliver req))))
    \<and> socket_mode_event_handler (self (run cl sched (step cl s (Deliver req)))) req'
        = (Returns \<lparr>response_envelope_id = envelope_id req'\<rparr>,
           (self (run cl sched (step cl s (Deliver req))))
             \<lparr>trace := trace (self (run cl sched (step cl s (Deliver req))))
                         @ [Logged (InfoAlreadyProcessed (dict_get e ''client_msg_id''))]\<rparr>)"
proof -
  let ?i = "dict_get e ''client_msg_id''"
  let ?s1 = "step cl s (Deliver req)"
  let ?s2 = "run cl sched ?s1"
  have "?i \<in> processed_events (self ?s1)"
    using assms(1,2) by (simp add: socket_mode_event_handler_def Let_def)
  then have in2: "?i \<in> processed_events (self ?s2)"
    using run_processed_mono [of ?s1 cl sched] by blast
  have "snd (socket_mode_event_handler (self ?s2) req')
          = (self ?s2)\<lparr>trace := trace (self ?s2) @ [Logged (InfoAlreadyProcessed ?i)]\<rparr>"
    using handler_discard [OF assms(3), of "self ?s2"] in2 assms(4) by simp
  moreover have "fst (socket_mode_event_handler (self ?s2) req')
          = Returns \<lparr>response_envelope_id = envelope_id req'\<rparr>"
    by (rule handler_ack [OF assms(3)])
  ultimately have "socket_mode_event_handler (self ?s2) req'
        = (Returns \<lparr>response_envelope_id = envelope_id req'\<rparr>,
           (self ?s2)\<lparr>trace := trace (self ?s2) @ [Logged (InfoAlreadyProcessed ?i)]\<rparr>)"
    by (metis prod.collapse)
  with in2 run_processed_mono [of s cl sched] process_message_fields(2) [of cl b p]
  show ?thesis by simp
qed

theorem dedup_is_permanent_witness:
  "truthy (Some ''m6'')
   \<and> notifications (trace (self (run ex_clients [Turn, Turn] (step ex_clients (start ex_bot) (Deliver ex_req_stranger))))) = []
   \<and> Some ''m6'' \<in> processed_events (self (run ex_clients [Turn, Turn] (step ex_clients (start ex_bot) (Deliver ex_req_stranger))))
   \<and> event_queue (snd (socket_mode_event_handler
        (self (run ex_clients [Turn, Turn] (step ex_clients (start ex_bot) (Deliver ex_req_stranger)))) ex_req_stranger)) = []"
  using dedup_is_permanent [of ex_req_stranger
      "[(''client_msg_id'', ''m6''), (''type'', ''message''), (''text'', ''<@U1> ping''), (''user'', ''U9''), (''channel'', ''C1'')]"
      ex_req_stranger
      "[(''client_msg_id'', ''m6''), (''type'', ''message''), (''text'', ''<@U1> ping''), (''user'', ''U9''), (''channel'', ''C1'')]"
      "start ex_bot" ex_clients "[Turn, Turn]" ex_bot "payload ex_req_stranger"]
  by (simp add: model_defs example_defs)

text \<open>
  C4, as it holds on the code. When \<^verbatim>\<open>auth_test\<close> raises \<open>SlackApiError\<close>,
  \<^verbatim>\<open>get_user_id\<close> logs and returns \<^verbatim>\<open>None\<close>, startup goes on with that identity, and
  the marker the f-string builds is the text \<^verbatim>\<open><@None>\<close>. An event whose text does not
  contain \<^verbatim>\<open><@None>\<close> is then rejected: \<^verbatim>\<open>process_message\<close> returns normally and no
  notification is sent.
\<close>

theorem failed_identity_marker:
  assumes "auth_test cl = Raises (SlackApiError err)"
    and "user_id b = None"
    and "dict_get (get_event p) ''text'' = Some t"
    and "\<not> py_in ''<@None>'' t"
  shows "get_user_id cl = (Returns None, [Logged (ErrorUserId err)])
    \<and> (\<exists>b0. init cl chat_id file = Returns b0 \<and> user_id b0 = None)
    \<and> mention_marker None = ''<@None>''
    \<and> fst (process_message cl b p) = Returns ()
    \<and> notifications (trace (snd (process_message cl b p))) = notifications (trace b)"
proof -
  have g: "get_user_id cl = (Returns None, [Logged (ErrorUserId err)])"
    using assms(1) by (simp add: get_user_id_def)
  have i: "\<exists>b0. init cl chat_id file = Returns b0 \<and> user_id b0 = None"
    using g by (cases "load_channel_emojis file") (simp add: init_def)
  have m: "mention_marker None = ''<@None>''"
    by (simp add: mention_marker_def)
  have "\<not> py_in (mention_marker (user_id b))
            (case dict_get (get_event p) ''text'' of None \<Rightarrow> [] | Some t \<Rightarrow> t)"
    using assms(2,3,4) m by simp
  then have "fst (process_message cl b p) = Returns ()"
    and "notifications (trace (snd (process_message cl b p))) = notifications (trace b)"
    using process_message_filtered [of p b cl] by blast+
  with g i m show ?thesis by blast
qed

theorem failed_identity_marker_witness:
  "auth_test ex_clients_noauth = Raises (SlackApiError ''invalid_auth'')
   \<and> \<not> py_in ''<@None>'' ''<@U1> ping''
   \<and> init ex_clients_noauth (Some ''chat'') (Returns [(''general'', ''*'')]) = Returns ex_bot_anon
   \<and> notifications (trace (snd (process_message ex_clients_noauth ex_bot_anon (payload ex_req)))) = []"
  using failed_identity_marker [of ex_clients_noauth "''invalid_auth''" ex_bot_anon "payload ex_req"
      "''<@U1> ping''" "Some ''chat''" "Returns [(''general'', ''*'')]"]
  by (simp add: example_defs get_event_def dict_get_def init_def get_user_id_def load_channel_emojis_def)

text \<open>
  C4 as stated (after a failed identity resolution the filter rejects every text) fails:
  the marker is then \<^verbatim>\<open><@None>\<close>, a text that contains it passes the filter, and the
  notification is sent.
\<close>

theorem failed_identity_counterexample:
  "init ex_clients_noauth (Some ''chat'') (Returns [(''general'', ''*'')]) = Returns ex_bot_anon
   \<and> py_in (mention_marker (user_id ex_bot_anon)) ''<@None> ping''
   \<and> notifications (trace (snd (process_message ex_clients_noauth ex_bot_anon (payload ex_req_none))))
       = [(Some ''chat'', format_message ''general *'' ''Ann'' ''<@None> ping'')]"
  by (simp add: example_defs model_defs init_def get_user_id_def load_channel_emojis_def)

text \<open>
  C7. Processing a dequeued payload sends a notification only if the event's type is
  \<^verbatim>\<open>message\<close>, it has a text, the text contains the marker and it has a user (a non-empty
  \<^verbatim>\<open>user\<close> value: the code tests its truth value). So an event whose text lacks the marker,
  and an event with the marker and no user, send nothing. An event that meets the four
  conditions, whose two lookups return responses holding the names and whose send call
  returns, sends exactly one notification, with the composed text.
\<close>

theorem mention_filter:
  "(notifications (trace (snd (process_message cl b p))) \<noteq> notifications (trace b) \<longrightarrow>
      dict_get (get_event p) ''type'' = Some ''message''
      \<and> dict_get (get_event p) ''text'' \<noteq> None
      \<and> py_in (mention_marker (user_id b)) (case dict_get (get_event p) ''text'' of None \<Rightarrow> [] | Some t \<Rightarrow> t)
      \<and> truthy (dict_get (get_event p) ''user''))
   \<and> (dict_get (get_event p) ''type'' = Some ''message''
      \<and> dict_get (get_event p) ''text'' = Some t
      \<and> py_in (mention_marker (user_id b)) t
      \<and> truthy (dict_get (get_event p) ''user'')
      \<and> users_info cl (dict_get (get_event p) ''user'') = Returns ui
      \<and> conversations_info cl (dict_get (get_event p) ''channel'') = Returns ci
      \<and> subscript2 ui ''user'' ''real_name'' = Returns un
      \<and> subscript2 ci ''channel'' ''name'' = Returns cn
      \<and> send_message cl (telegram_chat_id b)
           (format_message (channel_name_with_emoji (channel_emojis b) cn) un t) = Returns ()
      \<longrightarrow> notifications (trace (snd (process_message cl b p)))
           = notifications (trace b)
             @ [(telegram_chat_id b, format_message (channel_name_with_emoji (channel_emojis b) cn) un t)])"
proof (intro conjI impI)
  assume sent: "notifications (trace (snd (process_message cl b p))) \<noteq> notifications (trace b)"
  have "dict_get (get_event p) ''type'' = Some ''message''
      \<and> dict_get (get_event p) ''text'' \<noteq> None
      \<and> truthy (dict_get (get_event p) ''user'')
      \<and> py_in (mention_marker (user_id b)) (case dict_get (get_event p) ''text'' of None \<Rightarrow> [] | Some t \<Rightarrow> t)"
    using process_message_filtered(2) [of p b cl] sent by blast
  then show "dict_get (get_event p) ''type'' = Some ''message''"
    and "dict_get (get_event p) ''text'' \<noteq> None"
    and "py_in (mention_marker (user_id b)) (case dict_get (get_event p) ''text'' of None \<Rightarrow> [] | Some t \<Rightarrow> t)"
    and "truthy (dict_get (get_event p) ''user'')"
    by blast+
next
  assume h: "dict_get (get_event p) ''type'' = Some ''message''
      \<and> dict_get (get_event p) ''text'' = Some t
      \<and> py_in (mention_marker (user_id b)) t
      \<and> truthy (dict_get (get_event p) ''user'')
      \<and> users_info cl (dict_get (get_event p) ''user'') = Returns ui
      \<and> conversations_info cl (dict_get (get_event p) ''channel'') = Returns ci
      \<and> subscript2 ui ''user'' ''real_name'' = Returns un
      \<and> subscript2 ci ''channel'' ''name'' = Returns cn
      \<and> send_message cl (telegram_chat_id b)
           (format_message (channel_name_with_emoji (channel_emojis b) cn) un t) = Returns ()"
  have "process_message cl b p =
           (Returns (),
            b\<lparr>trace := trace b @
               [Logged (InfoProcessing p), Logged (InfoMentionFound t),
                Sent (telegram_chat_id b) (format_message (channel_name_with_emoji (channel_emojis b) cn) un t),
                Logged (InfoSent (format_message (channel_name_with_emoji (channel_emojis b) cn) un t))]\<rparr>)"
    using h by (intro process_message_relays) blast+
  then show "notifications (trace (snd (process_message cl b p)))
           = notifications (trace b)
             @ [(telegram_chat_id b, format_message (channel_name_with_emoji (channel_emojis b) cn) un t)]"
    by simp
qed

theorem mention_filter_witness:
  "notifications (trace (snd (process_message ex_clients ex_bot (payload ex_req)))) \<noteq> notifications (trace ex_bot)
   \<and> dict_get (get_event (payload ex_req)) ''type'' = Some ''message''
   \<and> dict_get (get_event (payload ex_req)) ''text'' = Some ''<@U1> ping''
   \<and> py_in (mention_marker (user_id ex_bot)) ''<@U1> ping''
   \<and> truthy (dict_get (get_event (payload ex_req)) ''user'')
   \<and> users_info ex_clients (dict_get (get_event (payload ex_req)) ''user'') = Returns [(''user'', [(''real_name'', ''Ann'')])]
   \<and> conversations_info ex_clients (dict_get (get_event (payload ex_req)) ''channel'') = Returns [(''channel'', [(''name'', ''general'')])]
   \<and> subscript2 [(''user'', [(''real_name'', ''Ann'')])] ''user'' ''real_name'' = Returns ''Ann''
   \<and> subscript2 [(''channel'', [(''name'', ''general'')])] ''channel'' ''name'' = Returns ''general''
   \<and> notifications (trace (snd (process_message ex_clients ex_bot (payload ex_req))))
       = [(Some ''chat'', format_message ''general *'' ''Ann'' ''<@U1> ping'')]"
  using mention_filter [of ex_clients ex_bot "payload ex_req" "''<@U1> ping''"
      "[(''user'', [(''real_name'', ''Ann'')])]" "[(''channel'', [(''name'', ''general'')])]" "''Ann''" "''general''"]
  by (simp add: example_defs model_defs)












end
